theory Spec2Isabelle
  imports Main "HOL-Library.Sublist"
begin

section \<open>The repository registry of osbuild-composer\<close>

text \<open>
  A shallow embedding of \<^verbatim>\<open>internal/reporegistry/reporegistry.go\<close>: the registry is a
  read-only table from distribution name to architecture name to an ordered sequence of
  repository definitions, and five query methods filter that sequence.

  Conventions of the embedding:
  \<^item> a Go slice is a list; the \<^verbatim>\<open>nil\<close> slice and the empty slice both have length zero and
    are both the list \<open>[]\<close>;
  \<^item> a Go map is a partial function; a missing key is \<open>None\<close> (the comma-ok form of the
    lookup yields the zero value and \<^verbatim>\<open>false\<close>);
  \<^item> a method returning \<^verbatim>\<open>([]rpmmd.RepoConfig, error)\<close> returns a pair of a list and an
    optional error, \<open>None\<close> being the \<^verbatim>\<open>nil\<close> error, so that what is returned beside an
    error is part of the model;
  \<^item> a \<^verbatim>\<open>for ... range\<close> loop appending to a slice is a recursive function over the
    ranged slice that carries the slice being built.
\<close>

subsection \<open>Data model\<close>

text \<open>
  Modelled from the spec: \<^verbatim>\<open>rpmmd.RepoConfig\<close> is declared outside this package. The
  registry reads one field of it, \<^verbatim>\<open>ImageTypeTags\<close>; the rest (name, URLs, keys) is opaque
  and kept as the parameter \<open>'c\<close>.
\<close>

record 'c RepoConfig =
  Config :: 'c
  ImageTypeTags :: "string list"

text \<open>\<^verbatim>\<open>rpmmd.DistrosRepoConfigs\<close>: \<^verbatim>\<open>map[string]map[string][]RepoConfig\<close>.\<close>

type_synonym 'c DistrosRepoConfigs = "string \<rightharpoonup> (string \<rightharpoonup> 'c RepoConfig list)"

record 'c RepoRegistry =
  repos :: "'c DistrosRepoConfigs"

text \<open>
  The errors of the package are built by \<^verbatim>\<open>fmt.Errorf\<close>: one with the distribution and the
  architecture formatted into it (no repositories found), three with a fixed text (a
  descriptor without its parent). \<open>Error\<close> is the message of the error value.
\<close>

datatype error =
  NotFoundError string string
  | InvalidReferenceError string

definition quote :: string where
  "quote = [CHR 0x27]"

fun Error :: "error \<Rightarrow> string" where
  "Error (NotFoundError distro arch) =
     ''there are no repositories for distribution '' @ quote @ distro @ quote
       @ '' and architecture '' @ quote @ arch @ quote"
| "Error (InvalidReferenceError msg) = msg"

text \<open>
  Modelled from the spec: the descriptors \<^verbatim>\<open>distro.Distro\<close>, \<^verbatim>\<open>distro.Arch\<close> and
  \<^verbatim>\<open>distro.ImageType\<close> are interfaces declared outside this package. A descriptor is the
  record of what its accessors return. A value of interface type is
  \<^item> the \<^verbatim>\<open>nil\<close> interface;
  \<^item> a \<^verbatim>\<open>nil\<close> pointer (or other \<^verbatim>\<open>nil\<close> of a kind that has one) wrapped in an interface;
  \<^item> a non-\<^verbatim>\<open>nil\<close> implementation of a kind on which \<^verbatim>\<open>reflect.Value.IsNil\<close> is defined
    (pointer, map, slice, channel, function);
  \<^item> an implementation of any other kind (a struct held by value, a string, a number), on
    which \<^verbatim>\<open>reflect.Value.IsNil\<close> panics.
\<close>

datatype 'a iface = NilInterface | TypedNil | Pointer 'a | Value 'a

text \<open>
  The panic of \<^verbatim>\<open>reflect.Value.IsNil\<close> on a value whose kind has no \<^verbatim>\<open>nil\<close>
  (a \<^verbatim>\<open>*reflect.ValueError\<close>).
\<close>

datatype panic = ValueError

record Distro =
  Distro_Name :: string

record Arch =
  Arch_Name :: string
  Arch_Distro :: "Distro iface"

record ImageType =
  ImageType_Name :: string
  ImageType_Arch :: "Arch iface"

subsection \<open>Query operations\<close>

definition DistroHasRepos ::
  "'c RepoRegistry \<Rightarrow> string \<Rightarrow> string \<Rightarrow> 'c RepoConfig list \<times> bool" where
  "DistroHasRepos r distro arch =
     (case repos r distro of
        None \<Rightarrow> ([], False)
      | Some distroRepos \<Rightarrow>
          (case distroRepos arch of
             None \<Rightarrow> ([], False)
           | Some rs \<Rightarrow> (rs, True)))"

text \<open>The loop of \<^verbatim>\<open>ReposByArchName\<close>; the last argument is \<^verbatim>\<open>repositories\<close>.\<close>

fun ReposByArchName_loop ::
  "'c RepoConfig list \<Rightarrow> bool \<Rightarrow> 'c RepoConfig list \<Rightarrow> 'c RepoConfig list" where
  "ReposByArchName_loop [] includeTagged repositories = repositories"
| "ReposByArchName_loop (repo # archRepos) includeTagged repositories =
     (if \<not> includeTagged \<and> length (ImageTypeTags repo) \<noteq> 0
      then ReposByArchName_loop archRepos includeTagged repositories
      else ReposByArchName_loop archRepos includeTagged (repositories @ [repo]))"

definition ReposByArchName ::
  "'c RepoRegistry \<Rightarrow> string \<Rightarrow> string \<Rightarrow> bool \<Rightarrow> 'c RepoConfig list \<times> error option" where
  "ReposByArchName r distro arch includeTagged =
     (case DistroHasRepos r distro arch of
        (archRepos, found) \<Rightarrow>
          if \<not> found then ([], Some (NotFoundError distro arch))
          else (ReposByArchName_loop archRepos includeTagged [], None))"

text \<open>
  The inner loop of \<^verbatim>\<open>reposByImageTypeName\<close> over the tags of one repository: it appends
  the repository at the first tag equal to the image type and leaves the loop.
\<close>

fun reposByImageTypeName_tags ::
  "'c RepoConfig \<Rightarrow> string list \<Rightarrow> string \<Rightarrow> 'c RepoConfig list \<Rightarrow> 'c RepoConfig list" where
  "reposByImageTypeName_tags repo [] imageType repositories = repositories"
| "reposByImageTypeName_tags repo (imageNameTag # tags) imageType repositories =
     (if imageNameTag = imageType then repositories @ [repo]
      else reposByImageTypeName_tags repo tags imageType repositories)"

fun reposByImageTypeName_loop ::
  "'c RepoConfig list \<Rightarrow> string \<Rightarrow> 'c RepoConfig list \<Rightarrow> 'c RepoConfig list" where
  "reposByImageTypeName_loop [] imageType repositories = repositories"
| "reposByImageTypeName_loop (repo # archRepos) imageType repositories =
     (if length (ImageTypeTags repo) = 0
      then reposByImageTypeName_loop archRepos imageType (repositories @ [repo])
      else reposByImageTypeName_loop archRepos imageType
             (reposByImageTypeName_tags repo (ImageTypeTags repo) imageType repositories))"

definition reposByImageTypeName ::
  "'c RepoRegistry \<Rightarrow> string \<Rightarrow> string \<Rightarrow> string \<Rightarrow> 'c RepoConfig list \<times> error option" where
  "reposByImageTypeName r distro arch imageType =
     (case ReposByArchName r distro arch True of
        (archRepos, Some err) \<Rightarrow> ([], Some err)
      | (archRepos, None) \<Rightarrow> (reposByImageTypeName_loop archRepos imageType [], None))"

text \<open>
  The descriptor methods test the parent with
  \<^verbatim>\<open>x == nil || reflect.ValueOf(x).IsNil()\<close>. The first disjunct holds of the \<^verbatim>\<open>nil\<close>
  interface and the second is then not evaluated; on every other value the second is
  evaluated: it holds of a \<^verbatim>\<open>nil\<close> pointer inside an interface, it is false of a
  non-\<^verbatim>\<open>nil\<close> pointer, whose accessors are then called, and it panics on an
  implementation of a kind without \<^verbatim>\<open>nil\<close>. A descriptor method therefore returns a panic
  (\<open>Inl\<close>) or the pair of the Go results (\<open>Inr\<close>).
\<close>

definition ReposByArch ::
  "'c RepoRegistry \<Rightarrow> Arch \<Rightarrow> bool \<Rightarrow> panic + 'c RepoConfig list \<times> error option" where
  "ReposByArch r arch includeTagged =
     (case Arch_Distro arch of
        NilInterface \<Rightarrow> Inr ([], Some (InvalidReferenceError
          ''there is no distribution associated with the provided architecture''))
      | TypedNil \<Rightarrow> Inr ([], Some (InvalidReferenceError
          ''there is no distribution associated with the provided architecture''))
      | Value d \<Rightarrow> Inl ValueError
      | Pointer d \<Rightarrow>
          Inr (ReposByArchName r (Distro_Name d) (Arch_Name arch) includeTagged))"

text \<open>The second test of \<^verbatim>\<open>ReposByImageType\<close> and its call, for the architecture \<open>a\<close>.\<close>

definition ReposByImageType_arch ::
  "'c RepoRegistry \<Rightarrow> string \<Rightarrow> Arch \<Rightarrow> panic + 'c RepoConfig list \<times> error option" where
  "ReposByImageType_arch r imageTypeName a =
     (case Arch_Distro a of
        NilInterface \<Rightarrow> Inr ([], Some (InvalidReferenceError
          ''there is no distribution associated with the architecture associated with the provided image type''))
      | TypedNil \<Rightarrow> Inr ([], Some (InvalidReferenceError
          ''there is no distribution associated with the architecture associated with the provided image type''))
      | Value d \<Rightarrow> Inl ValueError
      | Pointer d \<Rightarrow>
          Inr (reposByImageTypeName r (Distro_Name d) (Arch_Name a) imageTypeName))"

definition ReposByImageType ::
  "'c RepoRegistry \<Rightarrow> ImageType \<Rightarrow> panic + 'c RepoConfig list \<times> error option" where
  "ReposByImageType r imageType =
     (case ImageType_Arch imageType of
        NilInterface \<Rightarrow> Inr ([], Some (InvalidReferenceError
          ''there is no architecture associated with the provided image type''))
      | TypedNil \<Rightarrow> Inr ([], Some (InvalidReferenceError
          ''there is no architecture associated with the provided image type''))
      | Value a \<Rightarrow> Inl ValueError
      | Pointer a \<Rightarrow> ReposByImageType_arch r (ImageType_Name imageType) a)"

subsection \<open>The example table of the specification\<close>

definition repoA :: "string RepoConfig" where
  "repoA = \<lparr>Config = ''A'', ImageTypeTags = []\<rparr>"

definition repoB :: "string RepoConfig" where
  "repoB = \<lparr>Config = ''B'', ImageTypeTags = [''qcow2'']\<rparr>"

definition repoC :: "string RepoConfig" where
  "repoC = \<lparr>Config = ''C'', ImageTypeTags = [''qcow2'', ''ami'']\<rparr>"

definition fedoraRegistry :: "string RepoRegistry" where
  "fedoraRegistry = \<lparr>repos = [''fedora'' \<mapsto> [''x86_64'' \<mapsto> [repoA, repoB, repoC]]]\<rparr>"

section \<open>Properties\<close>

subsection \<open>What the loops compute\<close>

lemma ReposByArchName_loop_filter:
  "ReposByArchName_loop archRepos includeTagged repositories =
     repositories @ filter (\<lambda>repo. includeTagged \<or> ImageTypeTags repo = []) archRepos"
  by (induction archRepos arbitrary: repositories) auto

lemma reposByImageTypeName_tags_once:
  "reposByImageTypeName_tags repo tags imageType repositories =
     (if imageType \<in> set tags then repositories @ [repo] else repositories)"
  by (induction tags) auto

lemma reposByImageTypeName_loop_filter:
  "reposByImageTypeName_loop archRepos imageType repositories =
     repositories @ filter (\<lambda>repo. ImageTypeTags repo = [] \<or> imageType \<in> set (ImageTypeTags repo))
       archRepos"
  by (induction archRepos arbitrary: repositories)
     (auto simp: reposByImageTypeName_tags_once)

subsection \<open>The lookup\<close>

lemma DistroHasRepos_present:
  "repos r distro = Some distroRepos \<Longrightarrow> distroRepos arch = Some stored \<Longrightarrow>
     DistroHasRepos r distro arch = (stored, True)"
  by (simp add: DistroHasRepos_def)

lemma DistroHasRepos_absent:
  "repos r distro = None \<or> (\<exists>m. repos r distro = Some m \<and> m arch = None) \<Longrightarrow>
     DistroHasRepos r distro arch = ([], False)"
  by (auto simp: DistroHasRepos_def)

lemma DistroHasRepos_cases:
  "(repos r distro = None \<or> (\<exists>m. repos r distro = Some m \<and> m arch = None)) \<or>
   (\<exists>m stored. repos r distro = Some m \<and> m arch = Some stored)"
  by (cases "repos r distro") auto

lemma ReposByArchName_present:
  "repos r distro = Some distroRepos \<Longrightarrow> distroRepos arch = Some stored \<Longrightarrow>
     ReposByArchName r distro arch includeTagged =
       (filter (\<lambda>repo. includeTagged \<or> ImageTypeTags repo = []) stored, None)"
  by (simp add: ReposByArchName_def DistroHasRepos_present ReposByArchName_loop_filter)

lemma ReposByArchName_absent:
  "repos r distro = None \<or> (\<exists>m. repos r distro = Some m \<and> m arch = None) \<Longrightarrow>
     ReposByArchName r distro arch includeTagged = ([], Some (NotFoundError distro arch))"
  by (simp add: ReposByArchName_def DistroHasRepos_absent)

lemma reposByImageTypeName_present:
  "repos r distro = Some distroRepos \<Longrightarrow> distroRepos arch = Some stored \<Longrightarrow>
     reposByImageTypeName r distro arch imageType =
       (filter (\<lambda>repo. ImageTypeTags repo = [] \<or> imageType \<in> set (ImageTypeTags repo)) stored,
        None)"
  by (simp add: reposByImageTypeName_def ReposByArchName_present
      reposByImageTypeName_loop_filter)

lemma reposByImageTypeName_absent:
  "repos r distro = None \<or> (\<exists>m. repos r distro = Some m \<and> m arch = None) \<Longrightarrow>
     reposByImageTypeName r distro arch imageType = ([], Some (NotFoundError distro arch))"
  by (simp add: reposByImageTypeName_def ReposByArchName_absent)

lemma fedora_lookup:
  "repos fedoraRegistry ''fedora'' = Some [''x86_64'' \<mapsto> [repoA, repoB, repoC]]"
  "[''x86_64'' \<mapsto> [repoA, repoB, repoC]] ''x86_64'' = Some [repoA, repoB, repoC]"
  "repos fedoraRegistry ''centos'' = None"
  "[''x86_64'' \<mapsto> [repoA, repoB, repoC]] ''aarch64'' = None"
  by (simp_all add: fedoraRegistry_def)

subsection \<open>Filtering by image type\<close>

text \<open>
  Claim C1. When the table holds a sequence for the distribution and the architecture,
  \<^verbatim>\<open>reposByImageTypeName\<close> succeeds and returns the stored sequence filtered, in its order,
  to the repositories whose tags are empty or contain the image-type name as an element
  (equality of strings, so case matters).
\<close>

theorem reposByImageTypeName_keeps_matching:
  assumes "repos r distro = Some distroRepos" and "distroRepos arch = Some stored"
  shows "reposByImageTypeName r distro arch imageType =
           (filter (\<lambda>repo. ImageTypeTags repo = [] \<or> imageType \<in> set (ImageTypeTags repo)) stored,
            None)"
  using assms by (rule reposByImageTypeName_present)

theorem reposByImageTypeName_keeps_matching_witness:
  "repos fedoraRegistry ''fedora'' = Some [''x86_64'' \<mapsto> [repoA, repoB, repoC]] \<and>
   [''x86_64'' \<mapsto> [repoA, repoB, repoC]] ''x86_64'' = Some [repoA, repoB, repoC] \<and>
   reposByImageTypeName fedoraRegistry ''fedora'' ''x86_64'' ''AMI'' = ([repoA], None) \<and>
   reposByImageTypeName fedoraRegistry ''fedora'' ''x86_64'' ''ami'' = ([repoA, repoC], None)"
  using reposByImageTypeName_keeps_matching [OF fedora_lookup(1) fedora_lookup(2), of "''AMI''"]
    reposByImageTypeName_keeps_matching [OF fedora_lookup(1) fedora_lookup(2), of "''ami''"]
  by (simp add: fedora_lookup repoA_def repoB_def repoC_def)

subsection \<open>The direct lookup\<close>

text \<open>
  Claim C2. \<^verbatim>\<open>DistroHasRepos\<close> returns \<^verbatim>\<open>found = false\<close> exactly when the distribution is
  not a key of the table or the architecture is not a key under it; when both are keys it
  returns \<^verbatim>\<open>found = true\<close> and the stored sequence as it is.
\<close>

theorem DistroHasRepos_exact:
  "(\<not> snd (DistroHasRepos r distro arch) \<longleftrightarrow>
      repos r distro = None \<or> (\<exists>m. repos r distro = Some m \<and> m arch = None)) \<and>
   (\<forall>m stored. repos r distro = Some m \<and> m arch = Some stored \<longrightarrow>
      DistroHasRepos r distro arch = (stored, True))"
  by (auto simp: DistroHasRepos_def split: option.splits)

theorem DistroHasRepos_exact_witness:
  "DistroHasRepos fedoraRegistry ''fedora'' ''x86_64'' = ([repoA, repoB, repoC], True) \<and>
   \<not> snd (DistroHasRepos fedoraRegistry ''centos'' ''x86_64'') \<and>
   \<not> snd (DistroHasRepos fedoraRegistry ''fedora'' ''aarch64'')"
  using DistroHasRepos_exact [of fedoraRegistry "''fedora''" "''x86_64''"]
    DistroHasRepos_exact [of fedoraRegistry "''centos''" "''x86_64''"]
    DistroHasRepos_exact [of fedoraRegistry "''fedora''" "''aarch64''"]
  by (simp add: fedora_lookup)

subsection \<open>Filtering by architecture\<close>

text \<open>
  Claim C3. For a pair held by the table, \<^verbatim>\<open>ReposByArchName\<close> without tagged repositories
  returns the stored sequence without the repositories that carry a tag, and with tagged
  repositories it returns the stored sequence; both in the stored order.
\<close>

theorem ReposByArchName_includeTagged:
  assumes "repos r distro = Some distroRepos" and "distroRepos arch = Some stored"
  shows "ReposByArchName r distro arch False =
           (filter (\<lambda>repo. ImageTypeTags repo = []) stored, None) \<and>
         ReposByArchName r distro arch True = (stored, None)"
  using ReposByArchName_present [OF assms, of False]
    ReposByArchName_present [OF assms, of True]
  by simp

theorem ReposByArchName_includeTagged_witness:
  "repos fedoraRegistry ''fedora'' = Some [''x86_64'' \<mapsto> [repoA, repoB, repoC]] \<and>
   [''x86_64'' \<mapsto> [repoA, repoB, repoC]] ''x86_64'' = Some [repoA, repoB, repoC] \<and>
   ReposByArchName fedoraRegistry ''fedora'' ''x86_64'' False = ([repoA], None) \<and>
   ReposByArchName fedoraRegistry ''fedora'' ''x86_64'' True = ([repoA, repoB, repoC], None)"
  using ReposByArchName_includeTagged [OF fedora_lookup(1) fedora_lookup(2)]
  by (simp add: fedora_lookup repoA_def repoB_def repoC_def)

subsection \<open>The pair that is not in the table\<close>

lemma Error_NotFoundError_names:
  "sublist distro (Error (NotFoundError distro arch))"
  "sublist arch (Error (NotFoundError distro arch))"
proof -
  let ?p = "''there are no repositories for distribution '' @ quote"
  let ?q = "quote @ '' and architecture '' @ quote"
  have "Error (NotFoundError distro arch) = ?p @ distro @ (?q @ arch @ quote)"
    by simp
  then show "sublist distro (Error (NotFoundError distro arch))"
    unfolding sublist_def by blast
  have "Error (NotFoundError distro arch) = (?p @ distro @ ?q) @ arch @ quote"
    by simp
  then show "sublist arch (Error (NotFoundError distro arch))"
    unfolding sublist_def by blast
qed

text \<open>
  Claim C4. When the distribution is not a key of the table, or the architecture is not a
  key under it, \<^verbatim>\<open>ReposByArchName\<close> returns the empty sequence and the error whose message
  is the format of the source with the requested distribution and architecture in it, and
  \<^verbatim>\<open>reposByImageTypeName\<close> returns the same; each of the two fails in that case only.
\<close>

theorem not_found_error:
  "((repos r distro = None \<or> (\<exists>m. repos r distro = Some m \<and> m arch = None)) \<longrightarrow>
      ReposByArchName r distro arch includeTagged = ([], Some (NotFoundError distro arch)) \<and>
      reposByImageTypeName r distro arch imageType = ([], Some (NotFoundError distro arch))) \<and>
   (snd (ReposByArchName r distro arch includeTagged) \<noteq> None \<longleftrightarrow>
      repos r distro = None \<or> (\<exists>m. repos r distro = Some m \<and> m arch = None)) \<and>
   (snd (reposByImageTypeName r distro arch imageType) \<noteq> None \<longleftrightarrow>
      repos r distro = None \<or> (\<exists>m. repos r distro = Some m \<and> m arch = None)) \<and>
   Error (NotFoundError distro arch) =
      ''there are no repositories for distribution '' @ quote @ distro @ quote
        @ '' and architecture '' @ quote @ arch @ quote \<and>
   sublist distro (Error (NotFoundError distro arch)) \<and>
   sublist arch (Error (NotFoundError distro arch))"
proof -
  let ?absent = "repos r distro = None \<or> (\<exists>m. repos r distro = Some m \<and> m arch = None)"
  have fails: "?absent \<longrightarrow>
      ReposByArchName r distro arch includeTagged = ([], Some (NotFoundError distro arch)) \<and>
      reposByImageTypeName r distro arch imageType = ([], Some (NotFoundError distro arch))"
    using ReposByArchName_absent [of r distro arch includeTagged]
      reposByImageTypeName_absent [of r distro arch imageType]
    by blast
  have succeeds: "snd (ReposByArchName r distro arch includeTagged) = None \<and>
      snd (reposByImageTypeName r distro arch imageType) = None" if "\<not> ?absent"
  proof -
    from that DistroHasRepos_cases [of r distro arch]
    obtain m stored where "repos r distro = Some m" and "m arch = Some stored"
      by blast
    then show ?thesis
      by (simp add: ReposByArchName_present reposByImageTypeName_present)
  qed
  have arch_iff: "snd (ReposByArchName r distro arch includeTagged) \<noteq> None \<longleftrightarrow> ?absent"
    using fails succeeds by fastforce
  have type_iff: "snd (reposByImageTypeName r distro arch imageType) \<noteq> None \<longleftrightarrow> ?absent"
    using fails succeeds by fastforce
  have msg: "Error (NotFoundError distro arch) =
      ''there are no repositories for distribution '' @ quote @ distro @ quote
        @ '' and architecture '' @ quote @ arch @ quote"
    by simp
  show ?thesis
    by (intro conjI fails arch_iff type_iff msg Error_NotFoundError_names)
qed

theorem not_found_error_witness:
  "ReposByArchName fedoraRegistry ''fedora'' ''aarch64'' True =
     ([], Some (NotFoundError ''fedora'' ''aarch64'')) \<and>
   reposByImageTypeName fedoraRegistry ''centos'' ''x86_64'' ''qcow2'' =
     ([], Some (NotFoundError ''centos'' ''x86_64'')) \<and>
   snd (reposByImageTypeName fedoraRegistry ''fedora'' ''x86_64'' ''qcow2'') = None \<and>
   Error (NotFoundError ''fedora'' ''aarch64'') =
     ''there are no repositories for distribution '' @ quote @ ''fedora'' @ quote
        @ '' and architecture '' @ quote @ ''aarch64'' @ quote"
  using not_found_error [of fedoraRegistry "''fedora''" "''aarch64''" True "''qcow2''"]
    not_found_error [of fedoraRegistry "''centos''" "''x86_64''" True "''qcow2''"]
    not_found_error [of fedoraRegistry "''fedora''" "''x86_64''" True "''qcow2''"]
  by (simp add: fedora_lookup)

subsection \<open>Descriptors without their parent\<close>

lemma invalid_reference_is_not_NotFound:
  "''there is no distribution associated with the provided architecture''
     \<noteq> Error (NotFoundError d a)"
  "''there is no architecture associated with the provided image type''
     \<noteq> Error (NotFoundError d a)"
  "''there is no distribution associated with the architecture associated with the provided image type''
     \<noteq> Error (NotFoundError d a)"
  by simp_all

lemma ReposByArch_unset:
  assumes "Arch_Distro arch = NilInterface \<or> Arch_Distro arch = TypedNil"
  shows "ReposByArch r arch includeTagged =
     Inr ([], Some (InvalidReferenceError
        ''there is no distribution associated with the provided architecture''))"
  using assms by (auto simp: ReposByArch_def)

lemma ReposByImageType_no_arch:
  assumes "ImageType_Arch imageType = NilInterface \<or> ImageType_Arch imageType = TypedNil"
  shows "ReposByImageType r imageType =
     Inr ([], Some (InvalidReferenceError
        ''there is no architecture associated with the provided image type''))"
  using assms by (auto simp: ReposByImageType_def)

lemma ReposByImageType_no_distro:
  assumes "ImageType_Arch imageType = Pointer a"
    and "Arch_Distro a = NilInterface \<or> Arch_Distro a = TypedNil"
  shows "ReposByImageType r imageType =
     Inr ([], Some (InvalidReferenceError
        ''there is no distribution associated with the architecture associated with the provided image type''))"
  using assms by (auto simp: ReposByImageType_def ReposByImageType_arch_def)

text \<open>
  Claim C5, as stated, fails. The image-type descriptor below has an architecture, held by
  value in the interface, whose distribution is unset: \<^verbatim>\<open>ReposByImageType\<close> panics in its
  first test, \<^verbatim>\<open>reflect.ValueOf(imageType.Arch()).IsNil()\<close>, and returns no error at all.
\<close>

theorem unset_reference_by_value_panics:
  "ImageType_Arch \<lparr>ImageType_Name = ''qcow2'',
       ImageType_Arch = Value \<lparr>Arch_Name = ''x86_64'', Arch_Distro = NilInterface\<rparr>\<rparr>
     = Value \<lparr>Arch_Name = ''x86_64'', Arch_Distro = NilInterface\<rparr> \<and>
   Arch_Distro \<lparr>Arch_Name = ''x86_64'', Arch_Distro = NilInterface\<rparr> = NilInterface \<and>
   ReposByImageType fedoraRegistry
     \<lparr>ImageType_Name = ''qcow2'',
      ImageType_Arch = Value \<lparr>Arch_Name = ''x86_64'', Arch_Distro = NilInterface\<rparr>\<rparr>
     = Inl ValueError \<and>
   ReposByImageType fedoraRegistry
     \<lparr>ImageType_Name = ''qcow2'',
      ImageType_Arch = Value \<lparr>Arch_Name = ''x86_64'', Arch_Distro = NilInterface\<rparr>\<rparr>
     \<noteq> Inr ([], Some (InvalidReferenceError
          ''there is no distribution associated with the architecture associated with the provided image type''))"
  by (simp add: ReposByImageType_def)

text \<open>
  Claim C5, amended. An architecture descriptor whose distribution is unset (the \<^verbatim>\<open>nil\<close>
  interface or a \<^verbatim>\<open>nil\<close> pointer) makes \<^verbatim>\<open>ReposByArch\<close> return an error of a fixed text
  about the missing reference. An image-type descriptor whose architecture is unset, or
  whose architecture is a non-\<^verbatim>\<open>nil\<close> pointer to a descriptor with its distribution unset,
  makes \<^verbatim>\<open>ReposByImageType\<close> return such an error. In each case the method does not panic,
  the error is not the one of a failed lookup, its message is not the message of a failed
  lookup for any distribution and architecture, and the result is the same for every
  table. Nothing is said of an architecture held by value.
\<close>

theorem unset_reference_error:
  "((Arch_Distro arch = NilInterface \<or> Arch_Distro arch = TypedNil) \<longrightarrow>
      (\<exists>msg. ReposByArch (r :: 'c RepoRegistry) arch includeTagged =
         Inr ([], Some (InvalidReferenceError msg)) \<and>
         (\<forall>d a. msg \<noteq> Error (NotFoundError d a))) \<and>
      (\<forall>rs d a. ReposByArch r arch includeTagged \<noteq> Inr (rs, Some (NotFoundError d a))) \<and>
      ReposByArch r' arch includeTagged = ReposByArch r arch includeTagged) \<and>
   ((ImageType_Arch imageType = NilInterface \<or> ImageType_Arch imageType = TypedNil \<or>
     (\<exists>a. ImageType_Arch imageType = Pointer a \<and>
        (Arch_Distro a = NilInterface \<or> Arch_Distro a = TypedNil))) \<longrightarrow>
      (\<exists>msg. ReposByImageType r imageType = Inr ([], Some (InvalidReferenceError msg)) \<and>
         (\<forall>d a. msg \<noteq> Error (NotFoundError d a))) \<and>
      (\<forall>rs d a. ReposByImageType r imageType \<noteq> Inr (rs, Some (NotFoundError d a))) \<and>
      ReposByImageType r' imageType = ReposByImageType r imageType)"
proof (intro conjI impI)
  assume unset: "Arch_Distro arch = NilInterface \<or> Arch_Distro arch = TypedNil"
  note res = ReposByArch_unset [OF unset]
  show "\<exists>msg. ReposByArch r arch includeTagged = Inr ([], Some (InvalidReferenceError msg)) \<and>
         (\<forall>d a. msg \<noteq> Error (NotFoundError d a))"
    using res invalid_reference_is_not_NotFound(1) by blast
  show "\<forall>rs d a. ReposByArch r arch includeTagged \<noteq> Inr (rs, Some (NotFoundError d a))"
    by (simp add: res)
  show "ReposByArch r' arch includeTagged = ReposByArch r arch includeTagged"
    by (simp add: res)
next
  assume unset: "ImageType_Arch imageType = NilInterface \<or> ImageType_Arch imageType = TypedNil \<or>
     (\<exists>a. ImageType_Arch imageType = Pointer a \<and>
        (Arch_Distro a = NilInterface \<or> Arch_Distro a = TypedNil))"
  then consider
    (no_arch) "ImageType_Arch imageType = NilInterface \<or> ImageType_Arch imageType = TypedNil"
    | (no_distro) a where "ImageType_Arch imageType = Pointer a"
        and "Arch_Distro a = NilInterface \<or> Arch_Distro a = TypedNil"
    by blast
  then have res: "\<exists>msg. (\<forall>t :: 'c RepoRegistry. ReposByImageType t imageType =
        Inr ([], Some (InvalidReferenceError msg))) \<and>
      (\<forall>d a. msg \<noteq> Error (NotFoundError d a))"
  proof cases
    case no_arch
    show ?thesis
      using ReposByImageType_no_arch [OF no_arch] invalid_reference_is_not_NotFound(2)
      by blast
  next
    case no_distro
    show ?thesis
      using ReposByImageType_no_distro [OF no_distro] invalid_reference_is_not_NotFound(3)
      by blast
  qed
  then obtain msg where
    all: "\<And>t :: 'c RepoRegistry. ReposByImageType t imageType =
        Inr ([], Some (InvalidReferenceError msg))"
    and differs: "\<forall>d a. msg \<noteq> Error (NotFoundError d a)"
    by blast
  show "\<exists>msg. ReposByImageType r imageType = Inr ([], Some (InvalidReferenceError msg)) \<and>
         (\<forall>d a. msg \<noteq> Error (NotFoundError d a))"
    using all [of r] differs by blast
  show "\<forall>rs d a. ReposByImageType r imageType \<noteq> Inr (rs, Some (NotFoundError d a))"
    by (simp add: all)
  show "ReposByImageType r' imageType = ReposByImageType r imageType"
    by (simp add: all)
qed

theorem unset_reference_error_witness:
  "(Arch_Distro \<lparr>Arch_Name = ''x86_64'', Arch_Distro = TypedNil\<rparr> = NilInterface \<or>
    Arch_Distro \<lparr>Arch_Name = ''x86_64'', Arch_Distro = TypedNil\<rparr> = TypedNil) \<and>
   (\<exists>a. ImageType_Arch \<lparr>ImageType_Name = ''qcow2'',
         ImageType_Arch = Pointer \<lparr>Arch_Name = ''x86_64'', Arch_Distro = NilInterface\<rparr>\<rparr>
         = Pointer a \<and>
       (Arch_Distro a = NilInterface \<or> Arch_Distro a = TypedNil)) \<and>
   (\<exists>msg. ReposByArch fedoraRegistry \<lparr>Arch_Name = ''x86_64'', Arch_Distro = TypedNil\<rparr> True =
      Inr ([], Some (InvalidReferenceError msg))) \<and>
   (\<exists>msg. ReposByImageType fedoraRegistry
      \<lparr>ImageType_Name = ''qcow2'',
       ImageType_Arch = Pointer \<lparr>Arch_Name = ''x86_64'', Arch_Distro = NilInterface\<rparr>\<rparr> =
      Inr ([], Some (InvalidReferenceError msg)))"
proof -
  let ?arch = "\<lparr>Arch_Name = ''x86_64'', Arch_Distro = TypedNil\<rparr>"
  let ?imageType = "\<lparr>ImageType_Name = ''qcow2'',
       ImageType_Arch = Pointer \<lparr>Arch_Name = ''x86_64'', Arch_Distro = NilInterface\<rparr>\<rparr>"
  have no_distro: "Arch_Distro ?arch = NilInterface \<or> Arch_Distro ?arch = TypedNil"
    by simp
  have no_parent: "\<exists>a. ImageType_Arch ?imageType = Pointer a \<and>
       (Arch_Distro a = NilInterface \<or> Arch_Distro a = TypedNil)"
    by simp
  from unset_reference_error [of ?arch fedoraRegistry True fedoraRegistry ?imageType]
    no_distro no_parent
  show ?thesis by blast
qed

subsection \<open>Order and subsequences\<close>

lemma ReposByArchName_success:
  assumes "ReposByArchName r distro arch includeTagged = (out, None)"
  shows "out = filter (\<lambda>repo. includeTagged \<or> ImageTypeTags repo = [])
           (fst (DistroHasRepos r distro arch))"
  using assms
  by (auto simp: ReposByArchName_def ReposByArchName_loop_filter split: prod.splits if_splits)

lemma reposByImageTypeName_success:
  assumes "reposByImageTypeName r distro arch imageType = (out, None)"
  shows "out = filter (\<lambda>repo. ImageTypeTags repo = [] \<or> imageType \<in> set (ImageTypeTags repo))
           (fst (DistroHasRepos r distro arch))"
proof -
  from assms obtain archRepos where
    arch: "ReposByArchName r distro arch True = (archRepos, None)"
    and out: "out = reposByImageTypeName_loop archRepos imageType []"
    by (auto simp: reposByImageTypeName_def split: prod.splits option.splits)
  from ReposByArchName_success [OF arch]
  have "archRepos = fst (DistroHasRepos r distro arch)" by simp
  with out show ?thesis
    by (simp add: reposByImageTypeName_loop_filter)
qed

text \<open>
  Claim C6. For a pair held by the table, the result of \<^verbatim>\<open>ReposByArchName\<close> without tagged
  repositories is the result with them restricted to the entries without tags, hence a
  subsequence of it in the same order. Whenever \<^verbatim>\<open>ReposByArchName\<close> or
  \<^verbatim>\<open>reposByImageTypeName\<close> succeeds, what it returns is a subsequence, in the same order,
  of the sequence the table stores for the pair.
\<close>

theorem results_are_subsequences:
  "(\<forall>m stored. repos r distro = Some m \<and> m arch = Some stored \<longrightarrow>
      fst (ReposByArchName r distro arch False) =
        filter (\<lambda>repo. ImageTypeTags repo = []) (fst (ReposByArchName r distro arch True)) \<and>
      subseq (fst (ReposByArchName r distro arch False))
        (fst (ReposByArchName r distro arch True)) \<and>
      subseq (fst (ReposByArchName r distro arch includeTagged)) stored \<and>
      subseq (fst (reposByImageTypeName r distro arch imageType)) stored) \<and>
   (\<forall>out. ReposByArchName r distro arch includeTagged = (out, None) \<longrightarrow>
      subseq out (fst (DistroHasRepos r distro arch))) \<and>
   (\<forall>out. reposByImageTypeName r distro arch imageType = (out, None) \<longrightarrow>
      subseq out (fst (DistroHasRepos r distro arch)))"
proof (intro conjI allI impI)
  fix m stored
  assume "repos r distro = Some m \<and> m arch = Some stored"
  then have present: "repos r distro = Some m" "m arch = Some stored"
    by simp_all
  note arch = ReposByArchName_present [OF present]
  show "fst (ReposByArchName r distro arch False) =
        filter (\<lambda>repo. ImageTypeTags repo = []) (fst (ReposByArchName r distro arch True))"
    by (simp add: arch)
  show "subseq (fst (ReposByArchName r distro arch False))
        (fst (ReposByArchName r distro arch True))"
    by (simp add: arch)
  show "subseq (fst (ReposByArchName r distro arch includeTagged)) stored"
    by (simp add: arch)
  show "subseq (fst (reposByImageTypeName r distro arch imageType)) stored"
    by (simp add: reposByImageTypeName_present [OF present])
next
  fix out
  assume "ReposByArchName r distro arch includeTagged = (out, None)"
  from ReposByArchName_success [OF this]
  show "subseq out (fst (DistroHasRepos r distro arch))"
    by simp
next
  fix out
  assume "reposByImageTypeName r distro arch imageType = (out, None)"
  from reposByImageTypeName_success [OF this]
  show "subseq out (fst (DistroHasRepos r distro arch))"
    by simp
qed

theorem results_are_subsequences_witness:
  "repos fedoraRegistry ''fedora'' = Some [''x86_64'' \<mapsto> [repoA, repoB, repoC]] \<and>
   [''x86_64'' \<mapsto> [repoA, repoB, repoC]] ''x86_64'' = Some [repoA, repoB, repoC] \<and>
   subseq (fst (ReposByArchName fedoraRegistry ''fedora'' ''x86_64'' False))
     (fst (ReposByArchName fedoraRegistry ''fedora'' ''x86_64'' True)) \<and>
   subseq (fst (ReposByArchName fedoraRegistry ''fedora'' ''x86_64'' False))
     [repoA, repoB, repoC] \<and>
   subseq (fst (reposByImageTypeName fedoraRegistry ''fedora'' ''x86_64'' ''ami''))
     [repoA, repoB, repoC]"
  using results_are_subsequences [of fedoraRegistry "''fedora''" "''x86_64''" False "''ami''"]
    fedora_lookup(1) fedora_lookup(2)
  by blast

subsection \<open>The example of the specification\<close>

text \<open>
  Claim C7. On the table with \<open>fedora\<close>, \<open>x86_64\<close> and the repositories A (no tag),
  B (tag \<open>qcow2\<close>) and C (tags \<open>qcow2\<close>, \<open>ami\<close>), \<^verbatim>\<open>reposByImageTypeName\<close> returns A, B, C
  for \<open>qcow2\<close>, A, C for \<open>ami\<close> and A for \<open>vhd\<close>.
\<close>

theorem reposByImageTypeName_fedora_example:
  "reposByImageTypeName fedoraRegistry ''fedora'' ''x86_64'' ''qcow2'' =
     ([repoA, repoB, repoC], None) \<and>
   reposByImageTypeName fedoraRegistry ''fedora'' ''x86_64'' ''ami'' = ([repoA, repoC], None) \<and>
   reposByImageTypeName fedoraRegistry ''fedora'' ''x86_64'' ''vhd'' = ([repoA], None)"
  by (simp add: reposByImageTypeName_def ReposByArchName_def DistroHasRepos_def
      fedoraRegistry_def repoA_def repoB_def repoC_def)

subsection \<open>One entry for one repository\<close>

text \<open>
  Claim C9. The scan of the tags of a repository appends the repository once if the
  image-type name is among the tags, however often it occurs there, and not at all
  otherwise. So for a pair held by the table no repository occurs more often in the result
  of \<^verbatim>\<open>reposByImageTypeName\<close> than in the stored sequence, and one whose tags contain the
  image-type name occurs exactly as often as it is stored.
\<close>

theorem reposByImageTypeName_once_per_repository:
  assumes "repos r distro = Some distroRepos" and "distroRepos arch = Some stored"
  shows "reposByImageTypeName_tags repo tags imageType repositories =
           (if imageType \<in> set tags then repositories @ [repo] else repositories) \<and>
         count_list (fst (reposByImageTypeName r distro arch imageType)) repo
           \<le> count_list stored repo \<and>
         (imageType \<in> set (ImageTypeTags repo) \<longrightarrow>
            count_list (fst (reposByImageTypeName r distro arch imageType)) repo
              = count_list stored repo)"
proof -
  let ?keep = "\<lambda>repo. ImageTypeTags repo = [] \<or> imageType \<in> set (ImageTypeTags repo)"
  have count: "count_list (filter ?keep xs) repo =
      (if ?keep repo then count_list xs repo else 0)" for xs
    by (induction xs) auto
  have out: "fst (reposByImageTypeName r distro arch imageType) = filter ?keep stored"
    by (simp add: reposByImageTypeName_present [OF assms])
  show ?thesis
    unfolding out count by (simp add: reposByImageTypeName_tags_once)
qed

theorem reposByImageTypeName_once_per_repository_witness:
  "repos \<lparr>repos = [''fedora'' \<mapsto> [''x86_64'' \<mapsto>
       [\<lparr>Config = ''D'', ImageTypeTags = [''qcow2'', ''ami'', ''qcow2'']\<rparr>]]]\<rparr> ''fedora''
     = Some [''x86_64'' \<mapsto> [\<lparr>Config = ''D'', ImageTypeTags = [''qcow2'', ''ami'', ''qcow2'']\<rparr>]] \<and>
   [''x86_64'' \<mapsto> [\<lparr>Config = ''D'', ImageTypeTags = [''qcow2'', ''ami'', ''qcow2'']\<rparr>]] ''x86_64''
     = Some [\<lparr>Config = ''D'', ImageTypeTags = [''qcow2'', ''ami'', ''qcow2'']\<rparr>] \<and>
   count_list (fst (reposByImageTypeName
       \<lparr>repos = [''fedora'' \<mapsto> [''x86_64'' \<mapsto>
          [\<lparr>Config = ''D'', ImageTypeTags = [''qcow2'', ''ami'', ''qcow2'']\<rparr>]]]\<rparr>
       ''fedora'' ''x86_64'' ''qcow2''))
     \<lparr>Config = ''D'', ImageTypeTags = [''qcow2'', ''ami'', ''qcow2'']\<rparr> = 1"
proof -
  let ?D = "\<lparr>Config = ''D'', ImageTypeTags = [''qcow2'', ''ami'', ''qcow2'']\<rparr>"
  let ?m = "[''x86_64'' \<mapsto> [?D]]"
  let ?r = "\<lparr>repos = [''fedora'' \<mapsto> ?m]\<rparr>"
  have distro: "repos ?r ''fedora'' = Some ?m" by simp
  have arch: "?m ''x86_64'' = Some [?D]" by simp
  from reposByImageTypeName_once_per_repository [OF distro arch, of ?D "[]" "''qcow2''" "[]"]
  have "count_list (fst (reposByImageTypeName ?r ''fedora'' ''x86_64'' ''qcow2'')) ?D
      = count_list [?D] ?D"
    by simp
  then show ?thesis using distro arch by simp
qed

subsection \<open>A key with an empty sequence\<close>

text \<open>
  Claim C10. When the table stores the empty sequence for a pair, \<^verbatim>\<open>DistroHasRepos\<close>
  returns it with \<^verbatim>\<open>found = true\<close>, and \<^verbatim>\<open>ReposByArchName\<close> and \<^verbatim>\<open>reposByImageTypeName\<close>
  succeed with the empty sequence. The error of a failed lookup is returned exactly when
  a key is missing.
\<close>

theorem empty_sequence_is_found:
  "(\<forall>m. repos r distro = Some m \<and> m arch = Some [] \<longrightarrow>
      DistroHasRepos r distro arch = ([], True) \<and>
      ReposByArchName r distro arch includeTagged = ([], None) \<and>
      reposByImageTypeName r distro arch imageType = ([], None)) \<and>
   ((\<exists>d a. snd (ReposByArchName r distro arch includeTagged) = Some (NotFoundError d a)) \<longleftrightarrow>
      repos r distro = None \<or> (\<exists>m. repos r distro = Some m \<and> m arch = None)) \<and>
   ((\<exists>d a. snd (reposByImageTypeName r distro arch imageType) = Some (NotFoundError d a)) \<longleftrightarrow>
      repos r distro = None \<or> (\<exists>m. repos r distro = Some m \<and> m arch = None))"
proof -
  let ?absent = "repos r distro = None \<or> (\<exists>m. repos r distro = Some m \<and> m arch = None)"
  have empty: "DistroHasRepos r distro arch = ([], True) \<and>
      ReposByArchName r distro arch includeTagged = ([], None) \<and>
      reposByImageTypeName r distro arch imageType = ([], None)"
    if "repos r distro = Some m \<and> m arch = Some []" for m
  proof -
    from that have present: "repos r distro = Some m" "m arch = Some []"
      by simp_all
    show ?thesis
      using DistroHasRepos_present [OF present] ReposByArchName_present [OF present]
        reposByImageTypeName_present [OF present]
      by simp
  qed
  have arch_iff: "(\<exists>d a. snd (ReposByArchName r distro arch includeTagged)
      = Some (NotFoundError d a)) \<longleftrightarrow> ?absent"
  proof (cases ?absent)
    case True
    then show ?thesis by (simp add: ReposByArchName_absent)
  next
    case False
    with DistroHasRepos_cases [of r distro arch]
    obtain m stored where "repos r distro = Some m" and "m arch = Some stored"
      by blast
    with False show ?thesis by (simp add: ReposByArchName_present)
  qed
  have type_iff: "(\<exists>d a. snd (reposByImageTypeName r distro arch imageType)
      = Some (NotFoundError d a)) \<longleftrightarrow> ?absent"
  proof (cases ?absent)
    case True
    then show ?thesis by (simp add: reposByImageTypeName_absent)
  next
    case False
    with DistroHasRepos_cases [of r distro arch]
    obtain m stored where "repos r distro = Some m" and "m arch = Some stored"
      by blast
    with False show ?thesis by (simp add: reposByImageTypeName_present)
  qed
  from empty arch_iff type_iff show ?thesis by blast
qed

theorem empty_sequence_is_found_witness:
  "repos (\<lparr>repos = [''fedora'' \<mapsto> [''x86_64'' \<mapsto> []]]\<rparr> :: string RepoRegistry) ''fedora''
     = Some [''x86_64'' \<mapsto> []] \<and>
   ([''x86_64'' \<mapsto> []] :: string \<rightharpoonup> string RepoConfig list) ''x86_64'' = Some [] \<and>
   DistroHasRepos (\<lparr>repos = [''fedora'' \<mapsto> [''x86_64'' \<mapsto> []]]\<rparr> :: string RepoRegistry)
     ''fedora'' ''x86_64'' = ([], True) \<and>
   ReposByArchName (\<lparr>repos = [''fedora'' \<mapsto> [''x86_64'' \<mapsto> []]]\<rparr> :: string RepoRegistry)
     ''fedora'' ''x86_64'' False = ([], None) \<and>
   reposByImageTypeName (\<lparr>repos = [''fedora'' \<mapsto> [''x86_64'' \<mapsto> []]]\<rparr> :: string RepoRegistry)
     ''fedora'' ''x86_64'' ''qcow2'' = ([], None)"
proof -
  let ?m = "[''x86_64'' \<mapsto> []] :: string \<rightharpoonup> string RepoConfig list"
  let ?r = "\<lparr>repos = [''fedora'' \<mapsto> ?m]\<rparr>"
  have distro: "repos ?r ''fedora'' = Some ?m" by simp
  have arch: "?m ''x86_64'' = Some []" by simp
  from empty_sequence_is_found [of ?r "''fedora''" "''x86_64''" False "''qcow2''"] distro arch
  show ?thesis by blast
qed

end
